theory Spec2Isabelle
  imports Main "HOL-Library.AList" "HOL-Library.Sublist"
begin

section \<open>Python values\<close>

text \<open>
  The handlers receive and return JSON-like Python values. A string is a list of
  characters, each a code point below 256. A float is carried by its \<open>repr\<close> text: the
  handlers never compute with one. A dict is an association list in insertion order, with
  string keys (the only keys the handlers use).
\<close>

datatype pyval =
    PNone
  | PBool bool
  | PInt int
  | PFloat string
  | PStr string
  | PList "pyval list"
  | PDict "(string \<times> pyval) list"

fun type_name :: "pyval \<Rightarrow> string" where
  "type_name PNone = ''NoneType''"
| "type_name (PBool b) = ''bool''"
| "type_name (PInt i) = ''int''"
| "type_name (PFloat r) = ''float''"
| "type_name (PStr s) = ''str''"
| "type_name (PList xs) = ''list''"
| "type_name (PDict kvs) = ''dict''"

subsection \<open>Text of numbers\<close>

definition digit_char :: "nat \<Rightarrow> char" where
  "digit_char d = (if d < 10 then char_of (48 + d) else char_of (87 + d))"

fun dec_nat :: "nat \<Rightarrow> string" where
  "dec_nat n = (if n < 10 then [digit_char n] else dec_nat (n div 10) @ [digit_char (n mod 10)])"

declare dec_nat.simps [simp del]

definition dec_int :: "int \<Rightarrow> string" where
  "dec_int i = (if i < 0 then CHR ''-'' # dec_nat (nat (- i)) else dec_nat (nat i))"

definition hex2 :: "nat \<Rightarrow> string" where
  "hex2 n = [digit_char ((n div 16) mod 16), digit_char (n mod 16)]"

subsection \<open>str and repr\<close>

definition backslash :: char where
  "backslash = CHR 0x5C"

definition squote :: char where
  "squote = CHR 0x27"

definition dquote :: char where
  "dquote = CHR 0x22"

definition newline :: char where
  "newline = CHR 0x0A"

definition repr_quote :: "string \<Rightarrow> char" where
  "repr_quote s = (if squote \<in> set s \<and> dquote \<notin> set s then dquote else squote)"

definition repr_char :: "char \<Rightarrow> char \<Rightarrow> string" where
  "repr_char q c =
     (let n = (of_char c :: nat) in
      if c = q \<or> c = backslash then [backslash, c]
      else if n = 9 then [backslash, CHR ''t'']
      else if n = 10 then [backslash, CHR ''n'']
      else if n = 13 then [backslash, CHR ''r'']
      else if n < 32 \<or> n = 127 \<or> (128 \<le> n \<and> n \<le> 160) \<or> n = 173
        then [backslash, CHR ''x''] @ hex2 n
      else [c])"

definition repr_str :: "string \<Rightarrow> string" where
  "repr_str s = (let q = repr_quote s in q # concat (map (repr_char q) s) @ [q])"

fun join :: "string \<Rightarrow> string list \<Rightarrow> string" where
  "join sep [] = []"
| "join sep [x] = x"
| "join sep (x # y # ys) = x @ sep @ join sep (y # ys)"

fun py_repr :: "pyval \<Rightarrow> string" where
  "py_repr PNone = ''None''"
| "py_repr (PBool b) = (if b then ''True'' else ''False'')"
| "py_repr (PInt i) = dec_int i"
| "py_repr (PFloat r) = r"
| "py_repr (PStr s) = repr_str s"
| "py_repr (PList xs) = ''['' @ join '', '' (map py_repr xs) @ '']''"
| "py_repr (PDict kvs) =
     ''{'' @ join '', '' (map (\<lambda>(k, v). repr_str k @ '': '' @ py_repr v) kvs) @ ''}''"

fun py_str :: "pyval \<Rightarrow> string" where
  "py_str (PStr s) = s"
| "py_str v = py_repr v"

subsection \<open>str.lower and the substring test\<close>

definition lower_char :: "char \<Rightarrow> char" where
  "lower_char c =
     (let n = (of_char c :: nat) in
      if (65 \<le> n \<and> n \<le> 90) \<or> (192 \<le> n \<and> n \<le> 222 \<and> n \<noteq> 215) then char_of (n + 32) else c)"

definition lower :: "string \<Rightarrow> string" where
  "lower s = map lower_char s"

fun str_in :: "string \<Rightarrow> string \<Rightarrow> bool" where
  "str_in w [] = (w = [])"
| "str_in w (c # s) = (prefix w (c # s) \<or> str_in w s)"

subsection \<open>json.dumps\<close>

text \<open>
  \<open>json.dumps\<close> with its default \<open>ensure_ascii\<close>: inside a string every character outside
  the printable ASCII range is escaped. With \<open>indent=n\<close> each element stands on its own
  line and the item separator is a comma; without it the separator is a comma and a space.
  Every value of \<open>pyval\<close> is serialisable, so the \<open>default=str\<close> fallback is never reached.
\<close>

definition json_escape_char :: "char \<Rightarrow> string" where
  "json_escape_char c =
     (let n = (of_char c :: nat) in
      if c = dquote then [backslash, dquote]
      else if c = backslash then [backslash, backslash]
      else if n = 10 then [backslash, CHR ''n'']
      else if n = 13 then [backslash, CHR ''r'']
      else if n = 9 then [backslash, CHR ''t'']
      else if n = 8 then [backslash, CHR ''b'']
      else if n = 12 then [backslash, CHR ''f'']
      else if n < 32 \<or> 126 < n then [backslash, CHR ''u'', CHR ''0'', CHR ''0''] @ hex2 n
      else [c])"

definition json_string :: "string \<Rightarrow> string" where
  "json_string s = dquote # concat (map json_escape_char s) @ [dquote]"

definition json_float :: "string \<Rightarrow> string" where
  "json_float r =
     (if r = ''nan'' then ''NaN''
      else if r = ''inf'' then ''Infinity''
      else if r = ''-inf'' then ''-Infinity''
      else r)"

definition newline_indent :: "nat option \<Rightarrow> nat \<Rightarrow> string" where
  "newline_indent indent level =
     (case indent of None \<Rightarrow> [] | Some n \<Rightarrow> newline # replicate (n * level) CHR '' '')"

definition item_separator :: "nat option \<Rightarrow> nat \<Rightarrow> string" where
  "item_separator indent level =
     (case indent of None \<Rightarrow> '', '' | Some n \<Rightarrow> '','' @ newline_indent indent level)"

fun json_encode :: "nat option \<Rightarrow> nat \<Rightarrow> pyval \<Rightarrow> string" where
  "json_encode indent level PNone = ''null''"
| "json_encode indent level (PBool b) = (if b then ''true'' else ''false'')"
| "json_encode indent level (PInt i) = dec_int i"
| "json_encode indent level (PFloat r) = json_float r"
| "json_encode indent level (PStr s) = json_string s"
| "json_encode indent level (PList xs) =
     (if xs = [] then ''[]''
      else ''['' @ newline_indent indent (level + 1)
        @ join (item_separator indent (level + 1)) (map (json_encode indent (level + 1)) xs)
        @ newline_indent indent level @ '']'')"
| "json_encode indent level (PDict kvs) =
     (if kvs = [] then ''{}''
      else ''{'' @ newline_indent indent (level + 1)
        @ join (item_separator indent (level + 1))
            (map (\<lambda>(k, v). json_string k @ '': '' @ json_encode indent (level + 1) v) kvs)
        @ newline_indent indent level @ ''}'')"

definition json_dumps :: "nat option \<Rightarrow> pyval \<Rightarrow> string" where
  "json_dumps indent v = json_encode indent 0 v"

section \<open>Exceptions\<close>

text \<open>
  Every failure the handlers can meet is an instance of \<open>Exception\<close>. \<open>str_exn\<close> is
  \<open>str(e)\<close>: the message the exception was built with, and for a \<open>KeyError\<close> the repr of
  the missing key. The interpreter's own messages are those of CPython 3.11 to 3.13.
\<close>

datatype exn =
    ValueError string
  | KeyError pyval
  | AttributeError string string
  | TypeError string
  | Exception string

fun str_exn :: "exn \<Rightarrow> string" where
  "str_exn (ValueError m) = m"
| "str_exn (KeyError k) = py_repr k"
| "str_exn (AttributeError tn attr) =
     [squote] @ tn @ [squote] @ '' object has no attribute '' @ [squote] @ attr @ [squote]"
| "str_exn (TypeError m) = m"
| "str_exn (Exception m) = m"

text \<open>\<open>d.get(key, default)\<close>: only a dict has the method.\<close>

fun py_get :: "pyval \<Rightarrow> string \<Rightarrow> pyval \<Rightarrow> exn + pyval" where
  "py_get (PDict kvs) key dflt = Inr (case map_of kvs key of Some v \<Rightarrow> v | None \<Rightarrow> dflt)"
| "py_get v key dflt = Inl (AttributeError (type_name v) ''get'')"

text \<open>\<open>d[key]\<close> with a string key.\<close>

fun py_subscript :: "pyval \<Rightarrow> string \<Rightarrow> exn + pyval" where
  "py_subscript (PDict kvs) key =
     (case map_of kvs key of Some v \<Rightarrow> Inr v | None \<Rightarrow> Inl (KeyError (PStr key)))"
| "py_subscript (PStr s) key =
     Inl (TypeError (''string indices must be integers, not '' @ [squote] @ ''str'' @ [squote]))"
| "py_subscript (PList xs) key =
     Inl (TypeError ''list indices must be integers or slices, not str'')"
| "py_subscript v key =
     Inl (TypeError ([squote] @ type_name v @ [squote] @ '' object is not subscriptable''))"

text \<open>\<open>key in v\<close> with a string key: a key of a dict, an element of a list, a substring.\<close>

fun py_in :: "string \<Rightarrow> pyval \<Rightarrow> exn + bool" where
  "py_in key (PDict kvs) = Inr (key \<in> set (map fst kvs))"
| "py_in key (PList xs) = Inr (PStr key \<in> set xs)"
| "py_in key (PStr s) = Inr (str_in key s)"
| "py_in key v =
     Inl (TypeError (''argument of type '' @ [squote] @ type_name v @ [squote] @ '' is not iterable''))"

section \<open>External collaborators\<close>

text \<open>
  The data store behind the three query functions, the language model behind the insight
  generator, the weather agent and the clock are outside the program. A call to one of
  them is recorded with the arguments it was given, and its outcome (a value, or an exception) is
  whatever the environment answers, which may depend on every call made before it.
\<close>

datatype call =
    RevenueQuery pyval
  | ProductQuery pyval pyval
  | CustomerQuery pyval pyval
  | Analyst pyval pyval
  | WeatherAgent pyval pyval
  | UtcNow

type_synonym responder = "call list \<Rightarrow> call \<Rightarrow> exn + pyval"

type_synonym 'a prog = "call list \<Rightarrow> (exn + 'a) \<times> call list"

definition ret :: "'a \<Rightarrow> 'a prog" where
  "ret x tr = (Inr x, tr)"

definition raise :: "exn \<Rightarrow> 'a prog" where
  "raise e tr = (Inl e, tr)"

definition lift :: "exn + 'a \<Rightarrow> 'a prog" where
  "lift r tr = (r, tr)"

definition bind :: "'a prog \<Rightarrow> ('a \<Rightarrow> 'b prog) \<Rightarrow> 'b prog" where
  "bind m f tr = (case m tr of (Inl e, tr') \<Rightarrow> (Inl e, tr') | (Inr x, tr') \<Rightarrow> f x tr')"

definition try_except :: "'a prog \<Rightarrow> (exn \<Rightarrow> 'a prog) \<Rightarrow> 'a prog" where
  "try_except m h tr = (case m tr of (Inl e, tr') \<Rightarrow> h e tr' | (Inr x, tr') \<Rightarrow> (Inr x, tr'))"

definition external :: "responder \<Rightarrow> call \<Rightarrow> pyval prog" where
  "external ext c tr = (ext tr c, tr @ [c])"

text \<open>
  \<open>calls_succeed ext tr cs\<close>: made one after the other from the trace \<open>tr\<close>, every call of
  \<open>cs\<close> is answered with a value, none with an exception.
\<close>

fun calls_succeed :: "responder \<Rightarrow> call list \<Rightarrow> call list \<Rightarrow> bool" where
  "calls_succeed ext tr [] = True"
| "calls_succeed ext tr (c # cs) =
     (case ext tr c of Inl e \<Rightarrow> False | Inr d \<Rightarrow> calls_succeed ext (tr @ [c]) cs)"

section \<open>The business-data functions (query\_agent\_handler.py)\<close>

text \<open>
  The three query functions open a connection, run one fixed SQL statement and total its
  rows. Each is one call to the data store, given the arguments as the caller passed them
  (\<open>None\<close> for an argument left out); a connection or SQL failure is the call's exception.
\<close>

definition execute_revenue_query :: "responder \<Rightarrow> pyval \<Rightarrow> pyval prog" where
  "execute_revenue_query ext start_date = external ext (RevenueQuery start_date)"

definition execute_product_query :: "responder \<Rightarrow> pyval \<Rightarrow> pyval \<Rightarrow> pyval prog" where
  "execute_product_query ext start_date category = external ext (ProductQuery start_date category)"

definition execute_customer_query :: "responder \<Rightarrow> pyval \<Rightarrow> pyval \<Rightarrow> pyval prog" where
  "execute_customer_query ext start_date min_amount =
     external ext (CustomerQuery start_date min_amount)"

text \<open>
  The dict \<open>results\<close> of \<open>analyze_business_request\<close>, with its three keys \<open>request\<close>,
  \<open>queries_executed\<close> and \<open>data\<close>; \<open>results_dict\<close> is the dict itself.
\<close>

record results =
  r_request :: pyval
  r_queries_executed :: "string list"
  r_data :: "(string \<times> pyval) list"

definition results_dict :: "results \<Rightarrow> pyval" where
  "results_dict r =
     PDict [(''request'', r_request r),
            (''queries_executed'', PList (map PStr (r_queries_executed r))),
            (''data'', PDict (r_data r))]"

text \<open>\<open>any(word in prompt_lower for word in words)\<close>\<close>

definition any_word_in :: "string \<Rightarrow> string list \<Rightarrow> bool" where
  "any_word_in prompt_lower words = list_ex (\<lambda>word. str_in word prompt_lower) words"

definition analyze_business_request :: "responder \<Rightarrow> pyval \<Rightarrow> results prog" where
  "analyze_business_request ext user_prompt =
     (case user_prompt of
        PStr text \<Rightarrow>
          (let prompt_lower = lower text;
               results = \<lparr>r_request = user_prompt, r_queries_executed = [], r_data = []\<rparr>
           in
           bind (if any_word_in prompt_lower
                      [''revenue'', ''sales'', ''performance'', ''trends'', ''summary'', ''business'']
                 then bind (execute_revenue_query ext PNone) (\<lambda>d.
                        ret (results\<lparr>r_data := AList.update ''revenue'' d (r_data results),
                                     r_queries_executed :=
                                       r_queries_executed results @ [''revenue_summary'']\<rparr>))
                 else ret results) (\<lambda>results.
           bind (if any_word_in prompt_lower
                      [''product'', ''bestseller'', ''category'', ''inventory'', ''items'']
                 then bind (execute_product_query ext PNone PNone) (\<lambda>d.
                        ret (results\<lparr>r_data := AList.update ''products'' d (r_data results),
                                     r_queries_executed :=
                                       r_queries_executed results @ [''product_sales'']\<rparr>))
                 else ret results) (\<lambda>results.
           bind (if any_word_in prompt_lower
                      [''customer'', ''order'', ''high value'', ''vip'', ''spending'']
                 then
                   (let min_amount =
                          (if str_in ''$'' text \<or> str_in ''over'' prompt_lower
                           then (if str_in ''200'' text then PInt 200
                                 else if str_in ''500'' text then PInt 500
                                 else PNone)
                           else PNone)
                    in bind (execute_customer_query ext PNone min_amount) (\<lambda>d.
                         ret (results\<lparr>r_data := AList.update ''customers'' d (r_data results),
                                      r_queries_executed :=
                                        r_queries_executed results @ [''customer_orders'']\<rparr>)))
                 else ret results) (\<lambda>results.
           if r_queries_executed results = []
           then bind (execute_revenue_query ext PNone) (\<lambda>d1.
                bind (execute_product_query ext PNone PNone) (\<lambda>d2.
                  ret (results\<lparr>r_data := AList.update ''products'' d2
                                              (AList.update ''revenue'' d1 (r_data results)),
                               r_queries_executed := [''revenue_summary'', ''product_sales'']\<rparr>)))
           else ret results))))
      | _ \<Rightarrow> raise (AttributeError (type_name user_prompt) ''lower''))"

text \<open>
  \<open>generate_business_insights\<close>: the body of its \<open>try\<close> (reading the API key, building the
  model and the agent, formatting the data summary, asking the agent) is one call to the
  analyst, given the query results and the prompt; the function returns \<open>str\<close> of the
  answer. Whatever that body raises is caught, and the function returns the notice with
  the results serialised instead.
\<close>

definition generate_business_insights :: "responder \<Rightarrow> results \<Rightarrow> pyval \<Rightarrow> string prog" where
  "generate_business_insights ext query_results user_prompt =
     try_except
       (bind (external ext (Analyst (results_dict query_results) user_prompt)) (\<lambda>analysis.
          ret (py_str analysis)))
       (\<lambda>e. ret (''Data retrieved successfully, but analysis failed: '' @ str_exn e
                   @ [newline, newline] @ ''Raw data: ''
                   @ json_dumps (Some 2) (results_dict query_results)))"

definition http_headers :: pyval where
  "http_headers =
     PDict [(''Content-Type'', PStr ''application/json''), (''Access-Control-Allow-Origin'', PStr ''*'')]"

text \<open>\<open>agentic_handler\<close>; \<open>datetime.utcnow().isoformat()\<close> is a reading of the clock.\<close>

definition agentic_handler :: "responder \<Rightarrow> pyval \<Rightarrow> pyval prog" where
  "agentic_handler ext event =
     try_except
       (bind (lift (py_get event ''prompt'' (PStr ''Show me a business performance summary'')))
          (\<lambda>user_prompt.
        bind (analyze_business_request ext user_prompt) (\<lambda>query_results.
        bind (generate_business_insights ext query_results user_prompt) (\<lambda>insights.
        bind (external ext UtcNow) (\<lambda>timestamp.
          ret (PDict [(''statusCode'', PInt 200),
                      (''headers'', http_headers),
                      (''body'', PStr (json_dumps None (PDict
                         [(''response'', PStr insights),
                          (''queries_executed'',
                           PList (map PStr (r_queries_executed query_results))),
                          (''timestamp'', timestamp),
                          (''data_points'', PInt (int (length (r_data query_results))))])))]))))))
       (\<lambda>e.
        bind (external ext UtcNow) (\<lambda>timestamp.
          ret (PDict [(''statusCode'', PInt 500),
                      (''headers'', http_headers),
                      (''body'', PStr (json_dumps None (PDict
                         [(''error'', PStr (str_exn e)), (''timestamp'', timestamp)])))])))"

section \<open>The business-data MCP server (query/mcp\_handler.py)\<close>

definition define_tools :: "pyval list" where
  "define_tools =
     [PDict [(''name'', PStr ''query_business_data''),
             (''description'', PStr ''Query business data and get AI-powered insights''),
             (''inputSchema'', PDict
                [(''type'', PStr ''object''),
                 (''properties'', PDict
                    [(''query'', PDict
                        [(''type'', PStr ''string''),
                         (''description'', PStr ''Natural language query about business data'')])]),
                 (''required'', PList [PStr ''query''])])],
      PDict [(''name'', PStr ''get_revenue_summary''),
             (''description'', PStr ''Get revenue summary for a specific time period''),
             (''inputSchema'', PDict
                [(''type'', PStr ''object''),
                 (''properties'', PDict
                    [(''start_date'', PDict
                        [(''type'', PStr ''string''),
                         (''description'', PStr ''Start date in YYYY-MM-DD format''),
                         (''format'', PStr ''date'')])])])],
      PDict [(''name'', PStr ''get_product_performance''),
             (''description'', PStr ''Get product sales performance data''),
             (''inputSchema'', PDict
                [(''type'', PStr ''object''),
                 (''properties'', PDict
                    [(''start_date'', PDict
                        [(''type'', PStr ''string''),
                         (''description'', PStr ''Start date in YYYY-MM-DD format''),
                         (''format'', PStr ''date'')]),
                     (''category'', PDict
                        [(''type'', PStr ''string''),
                         (''description'', PStr ''Product category to filter by'')])])])],
      PDict [(''name'', PStr ''get_customer_orders''),
             (''description'', PStr ''Get customer order data''),
             (''inputSchema'', PDict
                [(''type'', PStr ''object''),
                 (''properties'', PDict
                    [(''start_date'', PDict
                        [(''type'', PStr ''string''),
                         (''description'', PStr ''Start date in YYYY-MM-DD format''),
                         (''format'', PStr ''date'')]),
                     (''min_amount'', PDict
                        [(''type'', PStr ''number''),
                         (''description'', PStr ''Minimum order amount to filter by'')])])])]]"

definition handle_initialize :: "pyval \<Rightarrow> pyval" where
  "handle_initialize params =
     PDict [(''protocolVersion'', PStr ''2024-11-05''),
            (''capabilities'', PDict [(''tools'', PDict [])]),
            (''serverInfo'', PDict [(''name'', PStr ''database-agent''),
                                    (''version'', PStr ''1.0.0'')])]"

definition handle_tools_list :: pyval where
  "handle_tools_list = PDict [(''tools'', PList define_tools)]"

definition text_content :: "string \<Rightarrow> pyval" where
  "text_content t = PList [PDict [(''type'', PStr ''text''), (''text'', PStr t)]]"

definition handle_tools_call :: "responder \<Rightarrow> pyval \<Rightarrow> pyval prog" where
  "handle_tools_call ext params =
     bind (lift (py_get params ''name'' PNone)) (\<lambda>tool_name.
     bind (lift (py_get params ''arguments'' (PDict []))) (\<lambda>arguments.
     try_except
       (if tool_name = PStr ''query_business_data'' then
          bind (lift (py_get arguments ''query'' (PStr ''Show me a business performance summary'')))
            (\<lambda>query.
          bind (analyze_business_request ext query) (\<lambda>query_results.
          bind (generate_business_insights ext query_results query) (\<lambda>insights.
            ret (PDict [(''content'', text_content insights)]))))
        else if tool_name = PStr ''get_revenue_summary'' then
          bind (lift (py_get arguments ''start_date'' PNone)) (\<lambda>start_date.
          bind (execute_revenue_query ext start_date) (\<lambda>d.
            ret (PDict [(''content'', text_content (json_dumps (Some 2) d))])))
        else if tool_name = PStr ''get_product_performance'' then
          bind (lift (py_get arguments ''start_date'' PNone)) (\<lambda>start_date.
          bind (lift (py_get arguments ''category'' PNone)) (\<lambda>category.
          bind (execute_product_query ext start_date category) (\<lambda>d.
            ret (PDict [(''content'', text_content (json_dumps (Some 2) d))]))))
        else if tool_name = PStr ''get_customer_orders'' then
          bind (lift (py_get arguments ''start_date'' PNone)) (\<lambda>start_date.
          bind (lift (py_get arguments ''min_amount'' PNone)) (\<lambda>min_amount.
          bind (execute_customer_query ext start_date min_amount) (\<lambda>d.
            ret (PDict [(''content'', text_content (json_dumps (Some 2) d))]))))
        else raise (ValueError (''Unknown tool: '' @ py_str tool_name)))
       (\<lambda>e. ret (PDict [(''content'',
                            text_content (''Error executing '' @ py_str tool_name @ '': '' @ str_exn e)),
                          (''isError'', PBool True)]))))"

definition success_response :: "pyval \<Rightarrow> pyval \<Rightarrow> pyval" where
  "success_response result request_id =
     PDict [(''jsonrpc'', PStr ''2.0''), (''result'', result), (''id'', request_id)]"

definition error_response :: "exn \<Rightarrow> pyval \<Rightarrow> pyval" where
  "error_response e request_id =
     PDict [(''jsonrpc'', PStr ''2.0''),
            (''error'', PDict [(''code'', PInt (- 32603)), (''message'', PStr (str_exn e))]),
            (''id'', request_id)]"

definition process_request :: "responder \<Rightarrow> pyval \<Rightarrow> pyval prog" where
  "process_request ext request =
     bind (lift (py_get request ''method'' PNone)) (\<lambda>method.
     bind (lift (py_get request ''params'' (PDict []))) (\<lambda>params.
     bind (lift (py_get request ''id'' PNone)) (\<lambda>request_id.
     try_except
       (bind (if method = PStr ''initialize'' then ret (handle_initialize params)
              else if method = PStr ''tools/list'' then ret handle_tools_list
              else if method = PStr ''tools/call'' then handle_tools_call ext params
              else raise (ValueError (''Unknown method: '' @ py_str method))) (\<lambda>result.
          ret (success_response result request_id)))
       (\<lambda>e. ret (error_response e request_id)))))"

text \<open>
  The Lambda entry point. \<open>json.loads\<close> is a parameter: a function from the body text to
  the parsed value, or to the exception of a text that is not JSON.
\<close>

definition handler :: "(string \<Rightarrow> exn + pyval) \<Rightarrow> responder \<Rightarrow> pyval \<Rightarrow> pyval prog" where
  "handler json_loads ext event =
     try_except
       (bind (lift (py_get event ''body'' PNone)) (\<lambda>b.
        bind (case b of PStr s \<Rightarrow> lift (json_loads s) | _ \<Rightarrow> ret event) (\<lambda>body.
        bind (lift (py_in ''jsonrpc'' body)) (\<lambda>is_mcp.
          if is_mcp
          then bind (process_request ext body) (\<lambda>response_body.
                 ret (PDict [(''statusCode'', PInt 200),
                             (''headers'', http_headers),
                             (''body'', PStr (json_dumps None response_body))]))
          else agentic_handler ext event))))
       (\<lambda>e.
          ret (PDict [(''statusCode'', PInt 200),
                      (''headers'', http_headers),
                      (''body'', PStr (json_dumps None (PDict
                         [(''jsonrpc'', PStr ''2.0''),
                          (''error'', PDict [(''code'', PInt (- 32603)),
                                            (''message'', PStr (''Internal error: '' @ str_exn e))]),
                          (''id'', PNone)])))]))"

section \<open>The weather MCP server (weather/mcp\_handler.py)\<close>

text \<open>
  The class has the same name as the business-data one; its methods, and the module's
  \<open>handler\<close>, carry the prefix \<open>weather_\<close> here. The function the module imports from
  \<open>weather_agent_handler\<close> is the weather agent: one external call, \<open>WeatherAgent\<close>,
  given the event and the context.
\<close>

definition weather_define_tools :: "pyval list" where
  "weather_define_tools =
     [PDict [(''name'', PStr ''get_weather_forecast''),
             (''description'', PStr ''Get weather forecast for a specific location''),
             (''inputSchema'', PDict
                [(''type'', PStr ''object''),
                 (''properties'', PDict
                    [(''location'', PDict
                        [(''type'', PStr ''string''),
                         (''description'',
                          PStr ''Location for weather forecast (city, zip code, etc.)'')])]),
                 (''required'', PList [PStr ''location''])])]]"

definition weather_handle_weather_request :: "responder \<Rightarrow> pyval \<Rightarrow> pyval prog" where
  "weather_handle_weather_request ext request =
     bind (lift (py_subscript request ''arguments'')) (\<lambda>arguments.
     bind (lift (py_subscript arguments ''location'')) (\<lambda>location.
     bind (external ext
             (WeatherAgent (PDict [(''prompt'', PStr (''Get weather forecast for '' @ py_str location))])
                PNone)) (\<lambda>response.
       ret (PDict [(''response'', response)]))))"

definition weather_handle_request :: "responder \<Rightarrow> pyval \<Rightarrow> pyval prog" where
  "weather_handle_request ext request =
     bind (lift (py_get request ''name'' PNone)) (\<lambda>tool_name.
       if tool_name = PStr ''get_weather_forecast'' then weather_handle_weather_request ext request
       else raise (ValueError (''Unknown tool: '' @ py_str tool_name)))"

definition weather_handle_tool_list :: pyval where
  "weather_handle_tool_list = PDict [(''tools'', PList weather_define_tools)]"

definition weather_handle_initialize :: "pyval \<Rightarrow> pyval" where
  "weather_handle_initialize params =
     PDict [(''protocolVersion'', PStr ''2024-11-05''),
            (''capabilities'', PDict [(''tools'', PDict [])]),
            (''serverInfo'', PDict [(''name'', PStr ''database-agent''),
                                    (''version'', PStr ''1.0.0'')])]"

definition weather_process_request :: "responder \<Rightarrow> pyval \<Rightarrow> pyval prog" where
  "weather_process_request ext request =
     bind (lift (py_get request ''method'' PNone)) (\<lambda>method.
     bind (lift (py_get request ''params'' (PDict []))) (\<lambda>params.
     bind (lift (py_get request ''id'' PNone)) (\<lambda>request_id.
     try_except
       (bind (if method = PStr ''initialize'' then ret (weather_handle_initialize params)
              else if method = PStr ''tools/list'' then ret weather_handle_tool_list
              else if method = PStr ''tools/call'' then weather_handle_request ext params
              else raise (ValueError (''Unknown method: '' @ py_str method))) (\<lambda>result.
          ret (success_response result request_id)))
       (\<lambda>e. ret (error_response e request_id)))))"

text \<open>The Lambda entry point of the weather server: nothing is caught here.\<close>

definition weather_handler :: "(string \<Rightarrow> exn + pyval) \<Rightarrow> responder \<Rightarrow> pyval \<Rightarrow> pyval prog" where
  "weather_handler json_loads ext event =
     bind (lift (py_get event ''body'' PNone)) (\<lambda>b.
     bind (case b of PStr s \<Rightarrow> lift (json_loads s) | _ \<Rightarrow> ret event) (\<lambda>body.
       weather_process_request ext body))"

section \<open>The tool registry and the classifier of the specification\<close>

text \<open>The names under which a server registers its tools.\<close>

definition registered_names :: "pyval list \<Rightarrow> pyval list" where
  "registered_names tools =
     map (\<lambda>t. case py_get t ''name'' PNone of Inr n \<Rightarrow> n | Inl e \<Rightarrow> PNone) tools"

text \<open>
  The classifier as the specification words it, to be compared with what
  \<open>analyze_business_request\<close> does: the text is lowercased; a category is selected when
  one of its keywords is a substring; the selected categories stand in the order of the
  rule table; when none is selected the result is revenue and product.
  \<open>spec_query_name\<close> and \<open>spec_data_key\<close> give the names under which the code lists a
  category in \<open>queries_executed\<close> and in \<open>data\<close>.
\<close>

datatype category = Revenue | Product | Customer

definition spec_rule_table :: "category list" where
  "spec_rule_table = [Revenue, Product, Customer]"

fun spec_keywords :: "category \<Rightarrow> string list" where
  "spec_keywords Revenue =
     [''revenue'', ''sales'', ''performance'', ''trends'', ''summary'', ''business'']"
| "spec_keywords Product = [''product'', ''bestseller'', ''category'', ''inventory'', ''items'']"
| "spec_keywords Customer = [''customer'', ''order'', ''high value'', ''vip'', ''spending'']"

definition spec_selected :: "string \<Rightarrow> category \<Rightarrow> bool" where
  "spec_selected text c = list_ex (\<lambda>k. sublist k (lower text)) (spec_keywords c)"

definition spec_classify :: "string \<Rightarrow> category list" where
  "spec_classify text =
     (let selected = filter (spec_selected text) spec_rule_table
      in if selected = [] then [Revenue, Product] else selected)"

fun spec_query_name :: "category \<Rightarrow> string" where
  "spec_query_name Revenue = ''revenue_summary''"
| "spec_query_name Product = ''product_sales''"
| "spec_query_name Customer = ''customer_orders''"

fun spec_data_key :: "category \<Rightarrow> string" where
  "spec_data_key Revenue = ''revenue''"
| "spec_data_key Product = ''products''"
| "spec_data_key Customer = ''customers''"

text \<open>
  The amount filter as the specification words it: when customer is selected and the text
  has a currency marker or the word over, the raw text is scanned for 200, then for 500,
  and the first one found is the minimum amount; \<open>PNone\<close> stands for no minimum amount.
\<close>

definition spec_min_amount :: "string \<Rightarrow> pyval" where
  "spec_min_amount text =
     (if spec_selected text Customer \<and> (sublist ''$'' text \<or> sublist ''over'' (lower text))
      then (if sublist ''200'' text then PInt 200
            else if sublist ''500'' text then PInt 500
            else PNone)
      else PNone)"

text \<open>
  The aggregator as the specification words it: for each category in classifier order the
  provider entry point of the category is invoked with the defaults of the category (no
  start date, no product category, the minimum amount of the classifier for customer);
  the outputs are collected under the category, the invocation order is kept in the
  executed list, and the first provider failure aborts the whole aggregation.
\<close>

fun spec_provider_call :: "pyval \<Rightarrow> category \<Rightarrow> call" where
  "spec_provider_call min_amount Revenue = RevenueQuery PNone"
| "spec_provider_call min_amount Product = ProductQuery PNone PNone"
| "spec_provider_call min_amount Customer = CustomerQuery PNone min_amount"

fun spec_aggregate :: "responder \<Rightarrow> pyval \<Rightarrow> category list \<Rightarrow> results \<Rightarrow> results prog" where
  "spec_aggregate ext min_amount [] res = ret res"
| "spec_aggregate ext min_amount (c # cs) res =
     bind (external ext (spec_provider_call min_amount c)) (\<lambda>d.
       spec_aggregate ext min_amount cs
         (res\<lparr>r_data := r_data res @ [(spec_data_key c, d)],
              r_queries_executed := r_queries_executed res @ [spec_query_name c]\<rparr>))"

section \<open>Sample environments\<close>

text \<open>A store with data, an analyst that answers, a weather agent and a clock.\<close>

definition sample_revenue :: pyval where
  "sample_revenue =
     PDict [(''total_revenue'', PFloat ''1250.5''), (''total_orders'', PInt 12),
            (''average_daily_revenue'', PFloat ''625.25''), (''days_analyzed'', PInt 2),
            (''daily_data'', PList [])]"

definition sample_products :: pyval where
  "sample_products =
     PDict [(''total_products_analyzed'', PInt 0), (''total_revenue'', PInt 0),
            (''total_units_sold'', PInt 0), (''top_products'', PList [])]"

definition sample_customers :: pyval where
  "sample_customers =
     PDict [(''total_orders_analyzed'', PInt 0), (''total_value'', PInt 0),
            (''average_order_value'', PInt 0), (''high_value_orders'', PList [])]"

fun sample_world :: responder where
  "sample_world tr (RevenueQuery start_date) = Inr sample_revenue"
| "sample_world tr (ProductQuery start_date category) = Inr sample_products"
| "sample_world tr (CustomerQuery start_date min_amount) = Inr sample_customers"
| "sample_world tr (Analyst query_results user_prompt) = Inr (PStr ''Revenue is steady.'')"
| "sample_world tr (WeatherAgent event ctxt) = Inr (PStr ''Sunny, 21 degrees'')"
| "sample_world tr UtcNow = Inr (PStr ''2024-11-05T10:00:00'')"

text \<open>The same world, where the product query cannot reach the store.\<close>

fun broken_store :: responder where
  "broken_store tr (ProductQuery start_date category) =
     Inl (Exception ''Database connection failed: timeout expired'')"
| "broken_store tr c = sample_world tr c"

text \<open>The same world, where the customer query fails in the store.\<close>

fun broken_customers :: responder where
  "broken_customers tr (CustomerQuery start_date min_amount) =
     Inl (Exception ''Database connection failed: relation does not exist'')"
| "broken_customers tr c = sample_world tr c"

text \<open>The same world, where the API key of the language model is not set.\<close>

fun no_api_key :: responder where
  "no_api_key tr (Analyst query_results user_prompt) =
     Inl (Exception
       ''OpenAI API key not found. Set OPENAI_API_KEY or OPENAI_KEY environment variable.'')"
| "no_api_key tr c = sample_world tr c"

section \<open>Basic facts\<close>

text \<open>The substring test of the code is the substring relation on lists.\<close>

lemma str_in_sublist: "str_in w s = sublist w s"
  by (induction s) (auto simp: sublist_Cons_right)

lemma bind_lift_Inr: "bind (lift (Inr x)) f = f x"
  by (rule ext) (simp add: bind_def lift_def)

lemma bind_lift_Inl: "bind (lift (Inl e)) f = raise e"
  by (rule ext) (simp add: bind_def lift_def raise_def)

lemma bind_ret: "bind (ret x) f = f x"
  by (rule ext) (simp add: bind_def ret_def)

lemma bind_raise: "bind (raise e) f = raise e"
  by (rule ext) (simp add: bind_def raise_def)

lemma try_except_ret: "try_except (ret x) h = ret x"
  by (rule ext) (simp add: try_except_def ret_def)

lemma try_except_raise: "try_except (raise e) h = h e"
  by (rule ext) (simp add: try_except_def raise_def)

lemma bind_external:
  "bind (external ext c) f tr =
     (case ext tr c of Inl e \<Rightarrow> (Inl e, tr @ [c]) | Inr v \<Rightarrow> f v (tr @ [c]))"
  by (simp add: bind_def external_def split: sum.splits)

lemma bind_assoc: "bind (bind m f) g = bind m (\<lambda>x. bind (f x) g)"
  by (rule ext) (simp add: bind_def split: prod.splits sum.splits)

lemmas prog_simps =
  bind_lift_Inr bind_lift_Inl bind_ret bind_raise try_except_ret try_except_raise

lemma py_subscript_id_success: "py_subscript (success_response result rid) ''id'' = Inr rid"
  by (simp add: success_response_def)

lemma py_subscript_id_error: "py_subscript (error_response e rid) ''id'' = Inr rid"
  by (simp add: error_response_def)

section \<open>The request id\<close>

text \<open>
  Both \<open>process_request\<close> functions end in the same two returns: the success envelope
  around the result, or the error envelope around the exception; each carries the id.
\<close>

lemma envelope_cases:
  "\<exists>resp tr'. try_except (bind m (\<lambda>result. ret (success_response result rid)))
                  (\<lambda>e. ret (error_response e rid)) tr = (Inr resp, tr')
      \<and> py_subscript resp ''id'' = Inr rid
      \<and> ((\<exists>result. resp = success_response result rid) \<or> (\<exists>e. resp = error_response e rid))"
proof (cases "m tr")
  case (Pair r tr')
  show ?thesis
  proof (cases r)
    case (Inl e)
    with Pair show ?thesis
      by (auto simp: try_except_def bind_def ret_def py_subscript_id_error)
  next
    case (Inr x)
    with Pair show ?thesis
      by (auto simp: try_except_def bind_def ret_def py_subscript_id_success)
  qed
qed

text \<open>
  C7. For every request (a mapping) given to either dispatcher, \<open>process_request\<close> returns
  a response, the response is the success envelope or the error envelope, and in both its
  \<open>id\<close> is the \<open>id\<close> of the request, whatever value that is, and \<open>None\<close> when the request
  has no \<open>id\<close>.
\<close>

theorem request_id_echoed:
  "(\<exists>resp tr'. process_request ext (PDict req) tr = (Inr resp, tr')
      \<and> py_subscript resp ''id'' = Inr (case map_of req ''id'' of Some v \<Rightarrow> v | None \<Rightarrow> PNone)
      \<and> ((\<exists>result. resp = success_response result
                         (case map_of req ''id'' of Some v \<Rightarrow> v | None \<Rightarrow> PNone))
         \<or> (\<exists>e. resp = error_response e
                      (case map_of req ''id'' of Some v \<Rightarrow> v | None \<Rightarrow> PNone))))
   \<and> (\<exists>resp tr'. weather_process_request ext (PDict req) tr = (Inr resp, tr')
      \<and> py_subscript resp ''id'' = Inr (case map_of req ''id'' of Some v \<Rightarrow> v | None \<Rightarrow> PNone)
      \<and> ((\<exists>result. resp = success_response result
                         (case map_of req ''id'' of Some v \<Rightarrow> v | None \<Rightarrow> PNone))
         \<or> (\<exists>e. resp = error_response e
                      (case map_of req ''id'' of Some v \<Rightarrow> v | None \<Rightarrow> PNone))))"
  unfolding process_request_def weather_process_request_def py_get.simps bind_lift_Inr
  by (intro conjI envelope_cases)

section \<open>Unknown tools\<close>

lemma registered_names_query:
  "registered_names define_tools =
     [PStr ''query_business_data'', PStr ''get_revenue_summary'',
      PStr ''get_product_performance'', PStr ''get_customer_orders'']"
  by (simp add: registered_names_def define_tools_def)

lemma registered_names_weather:
  "registered_names weather_define_tools = [PStr ''get_weather_forecast'']"
  by (simp add: registered_names_def weather_define_tools_def)

text \<open>
  C1, as the code has it. A \<open>tools/call\<close> request whose params are a mapping and whose
  tool name is not registered: the business-data server returns the success envelope
  around a result with \<open>isError\<close> true and the single text
  \<open>Error executing <name>: Unknown tool: <name>\<close>; the weather server returns the error
  envelope with code -32603 and message \<open>Unknown tool: <name>\<close>. Neither calls a
  collaborator.
\<close>

theorem unknown_tool_by_server:
  assumes "map_of req ''method'' = Some (PStr ''tools/call'')"
    and "py_get (PDict req) ''params'' (PDict []) = Inr (PDict ps)"
    and "py_get (PDict ps) ''name'' PNone = Inr tool_name"
    and "py_get (PDict req) ''id'' PNone = Inr rid"
  shows "(tool_name \<notin> set (registered_names define_tools) \<longrightarrow>
           process_request ext (PDict req) tr =
             (Inr (success_response
                (PDict [(''content'',
                         text_content (''Error executing '' @ py_str tool_name
                                        @ '': Unknown tool: '' @ py_str tool_name)),
                        (''isError'', PBool True)]) rid), tr))
       \<and> (tool_name \<notin> set (registered_names weather_define_tools) \<longrightarrow>
           weather_process_request ext (PDict req) tr =
             (Inr (PDict [(''jsonrpc'', PStr ''2.0''),
                          (''error'', PDict [(''code'', PInt (- 32603)),
                                            (''message'', PStr (''Unknown tool: '' @ py_str tool_name))]),
                          (''id'', rid)]), tr))"
proof (intro conjI impI)
  assume "tool_name \<notin> set (registered_names define_tools)"
  then have "handle_tools_call ext (PDict ps) =
      ret (PDict [(''content'',
                         text_content (''Error executing '' @ py_str tool_name
                                        @ '': Unknown tool: '' @ py_str tool_name)),
                        (''isError'', PBool True)])"
    using assms(3) by (simp add: registered_names_query handle_tools_call_def prog_simps)
  then show "process_request ext (PDict req) tr =
             (Inr (success_response
                (PDict [(''content'',
                         text_content (''Error executing '' @ py_str tool_name
                                        @ '': Unknown tool: '' @ py_str tool_name)),
                        (''isError'', PBool True)]) rid), tr)"
    using assms(1,2,4) by (simp add: process_request_def prog_simps) (simp add: ret_def)
next
  assume "tool_name \<notin> set (registered_names weather_define_tools)"
  then have "weather_handle_request ext (PDict ps) = raise (ValueError (''Unknown tool: '' @ py_str tool_name))"
    using assms(3) by (simp add: registered_names_weather weather_handle_request_def prog_simps)
  then show "weather_process_request ext (PDict req) tr =
             (Inr (PDict [(''jsonrpc'', PStr ''2.0''),
                          (''error'', PDict [(''code'', PInt (- 32603)),
                                            (''message'', PStr (''Unknown tool: '' @ py_str tool_name))]),
                          (''id'', rid)]), tr)"
    using assms(1,2,4) by (simp add: weather_process_request_def prog_simps)
      (simp add: ret_def error_response_def)
qed

theorem unknown_tool_by_server_witness:
  "process_request sample_world
      (PDict [(''jsonrpc'', PStr ''2.0''), (''method'', PStr ''tools/call''),
              (''params'', PDict [(''name'', PStr ''get_stock_price''), (''arguments'', PDict [])]),
              (''id'', PInt 1)]) [] =
     (Inr (PDict [(''jsonrpc'', PStr ''2.0''),
                  (''result'', PDict
                     [(''content'', PList [PDict
                         [(''type'', PStr ''text''),
                          (''text'', PStr ''Error executing get_stock_price: Unknown tool: get_stock_price'')]]),
                      (''isError'', PBool True)]),
                  (''id'', PInt 1)]), [])
   \<and> weather_process_request sample_world
      (PDict [(''jsonrpc'', PStr ''2.0''), (''method'', PStr ''tools/call''),
              (''params'', PDict [(''name'', PStr ''get_stock_price''), (''arguments'', PDict [])]),
              (''id'', PInt 1)]) [] =
     (Inr (PDict [(''jsonrpc'', PStr ''2.0''),
                  (''error'', PDict [(''code'', PInt (- 32603)),
                                    (''message'', PStr ''Unknown tool: get_stock_price'')]),
                  (''id'', PInt 1)]), [])"
  using unknown_tool_by_server
    [of "[(''jsonrpc'', PStr ''2.0''), (''method'', PStr ''tools/call''),
              (''params'', PDict [(''name'', PStr ''get_stock_price''), (''arguments'', PDict [])]),
              (''id'', PInt 1)]"
        "[(''name'', PStr ''get_stock_price''), (''arguments'', PDict [])]"
        "PStr ''get_stock_price''" "PInt 1" sample_world "[]"]
  by (simp add: registered_names_query registered_names_weather success_response_def text_content_def)

text \<open>
  C1 as stated fails on the weather server: for a name it has not registered it answers
  with the protocol error object, not with a result.
\<close>

theorem weather_unknown_tool_counterexample:
  "PStr ''get_stock_price'' \<notin> set (registered_names weather_define_tools)
   \<and> weather_process_request sample_world
      (PDict [(''jsonrpc'', PStr ''2.0''), (''method'', PStr ''tools/call''),
              (''params'', PDict [(''name'', PStr ''get_stock_price''), (''arguments'', PDict [])]),
              (''id'', PInt 1)]) [] =
     (Inr (PDict [(''jsonrpc'', PStr ''2.0''),
                  (''error'', PDict [(''code'', PInt (- 32603)),
                                    (''message'', PStr ''Unknown tool: get_stock_price'')]),
                  (''id'', PInt 1)]), [])"
  by (simp add: registered_names_weather weather_process_request_def weather_handle_request_def
      prog_simps) (simp add: ret_def error_response_def)

section \<open>The weather tool\<close>

text \<open>
  C9. On the weather server a \<open>tools/call\<close> of \<open>get_weather_forecast\<close> whose params have
  no \<open>arguments\<close>, or whose arguments are a mapping without \<open>location\<close>, raises a
  \<open>KeyError\<close>; the response is the error envelope with code -32603 and the missing key as
  message, and the weather agent is not called.
\<close>

theorem weather_missing_argument_protocol_error:
  assumes "map_of req ''method'' = Some (PStr ''tools/call'')"
    and "py_get (PDict req) ''params'' (PDict []) = Inr (PDict ps)"
    and "map_of ps ''name'' = Some (PStr ''get_weather_forecast'')"
    and "map_of ps ''arguments'' = None
         \<or> (\<exists>args. map_of ps ''arguments'' = Some (PDict args) \<and> map_of args ''location'' = None)"
    and "py_get (PDict req) ''id'' PNone = Inr rid"
  shows "weather_process_request ext (PDict req) tr =
           (Inr (PDict [(''jsonrpc'', PStr ''2.0''),
                        (''error'', PDict
                           [(''code'', PInt (- 32603)),
                            (''message'',
                             PStr (if map_of ps ''arguments'' = None
                                   then [squote] @ ''arguments'' @ [squote]
                                   else [squote] @ ''location'' @ [squote]))]),
                        (''id'', rid)]), tr)"
proof -
  have "weather_handle_request ext (PDict ps) =
          raise (KeyError (PStr (if map_of ps ''arguments'' = None then ''arguments'' else ''location'')))"
    using assms(3,4)
    by (auto simp: weather_handle_request_def weather_handle_weather_request_def prog_simps)
  then show ?thesis
    using assms(1,2,5)
    by (simp add: weather_process_request_def prog_simps)
      (simp add: ret_def error_response_def
        repr_str_def repr_quote_def repr_char_def squote_def dquote_def backslash_def Let_def)
qed


theorem weather_missing_argument_protocol_error_witness:
  "weather_process_request sample_world
      (PDict [(''jsonrpc'', PStr ''2.0''), (''method'', PStr ''tools/call''),
              (''params'', PDict [(''name'', PStr ''get_weather_forecast'')]),
              (''id'', PStr ''abc'')]) [] =
     (Inr (PDict [(''jsonrpc'', PStr ''2.0''),
                  (''error'', PDict [(''code'', PInt (- 32603)),
                                    (''message'', PStr [CHR 0x27, CHR ''a'', CHR ''r'', CHR ''g'',
                                       CHR ''u'', CHR ''m'', CHR ''e'', CHR ''n'', CHR ''t'',
                                       CHR ''s'', CHR 0x27])]),
                  (''id'', PStr ''abc'')]), [])
   \<and> weather_process_request sample_world
      (PDict [(''jsonrpc'', PStr ''2.0''), (''method'', PStr ''tools/call''),
              (''params'', PDict [(''name'', PStr ''get_weather_forecast''),
                                 (''arguments'', PDict [(''city'', PStr ''Paris'')])])]) [] =
     (Inr (PDict [(''jsonrpc'', PStr ''2.0''),
                  (''error'', PDict [(''code'', PInt (- 32603)),
                                    (''message'', PStr [CHR 0x27, CHR ''l'', CHR ''o'', CHR ''c'',
                                       CHR ''a'', CHR ''t'', CHR ''i'', CHR ''o'', CHR ''n'',
                                       CHR 0x27])]),
                  (''id'', PNone)]), [])"
  using weather_missing_argument_protocol_error
    [of "[(''jsonrpc'', PStr ''2.0''), (''method'', PStr ''tools/call''),
          (''params'', PDict [(''name'', PStr ''get_weather_forecast'')]),
          (''id'', PStr ''abc'')]"
        "[(''name'', PStr ''get_weather_forecast'')]" "PStr ''abc''" sample_world "[]"]
    weather_missing_argument_protocol_error
    [of "[(''jsonrpc'', PStr ''2.0''), (''method'', PStr ''tools/call''),
          (''params'', PDict [(''name'', PStr ''get_weather_forecast''),
                             (''arguments'', PDict [(''city'', PStr ''Paris'')])])]"
        "[(''name'', PStr ''get_weather_forecast''),
          (''arguments'', PDict [(''city'', PStr ''Paris'')])]" PNone sample_world "[]"]
  by (simp add: squote_def)

section \<open>The code against the classifier and the aggregator of the specification\<close>

text \<open>The keyword tests of the code are the selection of the specification.\<close>

lemma spec_selected_code:
  "spec_selected text Revenue = any_word_in (lower text)
     [''revenue'', ''sales'', ''performance'', ''trends'', ''summary'', ''business'']"
  "spec_selected text Product = any_word_in (lower text)
     [''product'', ''bestseller'', ''category'', ''inventory'', ''items'']"
  "spec_selected text Customer = any_word_in (lower text)
     [''customer'', ''order'', ''high value'', ''vip'', ''spending'']"
  by (simp_all only: spec_selected_def any_word_in_def str_in_sublist spec_keywords.simps)

text \<open>
  On a string prompt \<open>analyze_business_request\<close> does what the specification says of the
  classifier followed by the aggregator, the no-match fallback included.
\<close>

lemma analyze_refines_spec:
  "analyze_business_request ext (PStr text) =
     spec_aggregate ext (spec_min_amount text) (spec_classify text)
       \<lparr>r_request = PStr text, r_queries_executed = [], r_data = []\<rparr>"
proof -
  define R where "R = any_word_in (lower text)
     [''revenue'', ''sales'', ''performance'', ''trends'', ''summary'', ''business'']"
  define P where "P = any_word_in (lower text)
     [''product'', ''bestseller'', ''category'', ''inventory'', ''items'']"
  define C where "C = any_word_in (lower text)
     [''customer'', ''order'', ''high value'', ''vip'', ''spending'']"
  note sel = spec_selected_code [of "text", folded R_def P_def C_def]
  have cls: "spec_classify text =
      (if R \<or> P \<or> C then (if R then [Revenue] else []) @ (if P then [Product] else [])
                           @ (if C then [Customer] else [])
       else [Revenue, Product])"
    by (simp add: spec_classify_def spec_rule_table_def sel Let_def)
  have amt: "C \<Longrightarrow> spec_min_amount text =
      (if str_in ''$'' text \<or> str_in ''over'' (lower text)
                           then (if str_in ''200'' text then PInt 200
                                 else if str_in ''500'' text then PInt 500
                                 else PNone)
                           else PNone)"
    by (simp add: spec_min_amount_def sel str_in_sublist)
  show ?thesis
    unfolding analyze_business_request_def cls
    by (cases R; cases P; cases C)
      (simp_all add: Let_def R_def [symmetric] P_def [symmetric] C_def [symmetric] amt
        prog_simps bind_assoc execute_revenue_query_def execute_product_query_def
        execute_customer_query_def)
qed



lemma spec_aggregate_failure:
  "spec_aggregate ext m cs res tr = (Inl e, tr') \<Longrightarrow>
     \<exists>pre c post. cs = pre @ c # post
       \<and> tr' = tr @ map (spec_provider_call m) pre @ [spec_provider_call m c]
       \<and> ext (tr @ map (spec_provider_call m) pre) (spec_provider_call m c) = Inl e"
proof (induction cs arbitrary: res tr)
  case Nil
  then show ?case by (simp add: ret_def)
next
  case (Cons c cs)
  show ?case
  proof (cases "ext tr (spec_provider_call m c)")
    case (Inl e')
    with Cons.prems have "e' = e" "tr' = tr @ [spec_provider_call m c]"
      by (auto simp: bind_external)
    with Inl show ?thesis by (intro exI [of _ "[]"] exI [of _ c] exI [of _ cs]) simp
  next
    case (Inr d)
    with Cons.prems have rest: "spec_aggregate ext m cs
         (res\<lparr>r_data := r_data res @ [(spec_data_key c, d)],
              r_queries_executed := r_queries_executed res @ [spec_query_name c]\<rparr>)
         (tr @ [spec_provider_call m c]) = (Inl e, tr')"
      by (auto simp: bind_external)
    from Cons.IH [OF rest] obtain pre c' post where
      "cs = pre @ c' # post"
      "tr' = (tr @ [spec_provider_call m c]) @ map (spec_provider_call m) pre @ [spec_provider_call m c']"
      "ext ((tr @ [spec_provider_call m c]) @ map (spec_provider_call m) pre) (spec_provider_call m c') = Inl e"
      by blast
    then show ?thesis
      by (intro exI [of _ "c # pre"] exI [of _ c'] exI [of _ post]) simp
  qed
qed




lemma words_all_three:
  "any_word_in (lower ''Sales of products to VIP customers'')
     [''revenue'', ''sales'', ''performance'', ''trends'', ''summary'', ''business'']"
  "any_word_in (lower ''Sales of products to VIP customers'')
     [''product'', ''bestseller'', ''category'', ''inventory'', ''items'']"
  "any_word_in (lower ''Sales of products to VIP customers'')
     [''customer'', ''order'', ''high value'', ''vip'', ''spending'']"
  "\<not> str_in ''$'' ''Sales of products to VIP customers''"
  "\<not> str_in ''over'' (lower ''Sales of products to VIP customers'')"
  by code_simp+


section \<open>The amount filter\<close>

text \<open>
  C4. When a customer keyword occurs in the lowercased text, the raw text has a dollar
  sign or the lowercased text has \<open>over\<close>, and both \<open>200\<close> and \<open>500\<close> occur in the raw
  text, the customer query is called with \<open>min_amount\<close> 200: the calls made are revenue
  and product queries followed by that customer query, unless a revenue or product query
  raised before it, which ends the analysis with that exception.
\<close>

theorem both_amounts_min_amount_200:
  assumes "any_word_in (lower s) [''customer'', ''order'', ''high value'', ''vip'', ''spending'']"
    and "str_in ''$'' s \<or> str_in ''over'' (lower s)"
    and "str_in ''200'' s"
    and "str_in ''500'' s"
    and "analyze_business_request ext (PStr s) tr = (r, tr')"
  shows "\<exists>calls. tr' = tr @ calls \<and> calls \<noteq> []
           \<and> ((last calls = CustomerQuery PNone (PInt 200)
                \<and> set (butlast calls) \<subseteq> {RevenueQuery PNone, ProductQuery PNone PNone})
              \<or> (\<exists>e. r = Inl e
                    \<and> set calls \<subseteq> {RevenueQuery PNone, ProductQuery PNone PNone}
                    \<and> ext (tr @ butlast calls) (last calls) = Inl e))"
proof -
  define R where "R = any_word_in (lower s)
     [''revenue'', ''sales'', ''performance'', ''trends'', ''summary'', ''business'']"
  define P where "P = any_word_in (lower s)
     [''product'', ''bestseller'', ''category'', ''inventory'', ''items'']"
  show ?thesis
    using assms(5) unfolding analyze_business_request_def
    by (cases R; cases P)
      (auto simp: Let_def R_def [symmetric] P_def [symmetric] assms(1-4)
        prog_simps bind_assoc execute_revenue_query_def execute_product_query_def
        execute_customer_query_def bind_external ret_def split: sum.splits)
qed

lemma words_both_amounts:
  "any_word_in (lower ''Sales and orders over $500, or even 200'')
     [''revenue'', ''sales'', ''performance'', ''trends'', ''summary'', ''business'']"
  "\<not> any_word_in (lower ''Sales and orders over $500, or even 200'')
     [''product'', ''bestseller'', ''category'', ''inventory'', ''items'']"
  "any_word_in (lower ''Sales and orders over $500, or even 200'')
     [''customer'', ''order'', ''high value'', ''vip'', ''spending'']"
  "str_in ''$'' ''Sales and orders over $500, or even 200''"
  "str_in ''200'' ''Sales and orders over $500, or even 200''"
  "str_in ''500'' ''Sales and orders over $500, or even 200''"
  by code_simp+

theorem both_amounts_min_amount_200_witness:
  "analyze_business_request sample_world (PStr ''Sales and orders over $500, or even 200'') [] =
     (Inr \<lparr>r_request = PStr ''Sales and orders over $500, or even 200'',
           r_queries_executed = [''revenue_summary'', ''customer_orders''],
           r_data = [(''revenue'', sample_revenue), (''customers'', sample_customers)]\<rparr>,
      [RevenueQuery PNone, CustomerQuery PNone (PInt 200)])
   \<and> (\<exists>calls. [RevenueQuery PNone, CustomerQuery PNone (PInt 200)] = [] @ calls
         \<and> last calls = CustomerQuery PNone (PInt 200))"
proof -
  have run: "analyze_business_request sample_world
       (PStr ''Sales and orders over $500, or even 200'') [] =
     (Inr \<lparr>r_request = PStr ''Sales and orders over $500, or even 200'',
           r_queries_executed = [''revenue_summary'', ''customer_orders''],
           r_data = [(''revenue'', sample_revenue), (''customers'', sample_customers)]\<rparr>,
      [RevenueQuery PNone, CustomerQuery PNone (PInt 200)])"
    by (simp add: analyze_business_request_def Let_def words_both_amounts prog_simps bind_assoc
        execute_revenue_query_def execute_product_query_def execute_customer_query_def
        bind_external)
      (simp add: ret_def)
  from both_amounts_min_amount_200 [OF words_both_amounts(3) disjI1 [OF words_both_amounts(4)]
      words_both_amounts(5) words_both_amounts(6) run] run
  show ?thesis by auto
qed

section \<open>The classifier on the reference prompts\<close>

lemma words_revenue_trends:
  "any_word_in (lower ''Show me revenue trends'')
     [''revenue'', ''sales'', ''performance'', ''trends'', ''summary'', ''business'']"
  "\<not> any_word_in (lower ''Show me revenue trends'')
     [''product'', ''bestseller'', ''category'', ''inventory'', ''items'']"
  "\<not> any_word_in (lower ''Show me revenue trends'')
     [''customer'', ''order'', ''high value'', ''vip'', ''spending'']"
  by code_simp+

lemma words_bestseller:
  "\<not> any_word_in (lower ''top bestseller products'')
     [''revenue'', ''sales'', ''performance'', ''trends'', ''summary'', ''business'']"
  "any_word_in (lower ''top bestseller products'')
     [''product'', ''bestseller'', ''category'', ''inventory'', ''items'']"
  "\<not> any_word_in (lower ''top bestseller products'')
     [''customer'', ''order'', ''high value'', ''vip'', ''spending'']"
  by code_simp+

lemma words_customer_orders:
  "\<not> any_word_in (lower ''customer orders over $500'')
     [''revenue'', ''sales'', ''performance'', ''trends'', ''summary'', ''business'']"
  "\<not> any_word_in (lower ''customer orders over $500'')
     [''product'', ''bestseller'', ''category'', ''inventory'', ''items'']"
  "any_word_in (lower ''customer orders over $500'')
     [''customer'', ''order'', ''high value'', ''vip'', ''spending'']"
  "str_in ''$'' ''customer orders over $500''"
  "\<not> str_in ''200'' ''customer orders over $500''"
  "str_in ''500'' ''customer orders over $500''"
  by code_simp+

lemma words_hello:
  "\<not> any_word_in (lower ''hello'')
     [''revenue'', ''sales'', ''performance'', ''trends'', ''summary'', ''business'']"
  "\<not> any_word_in (lower ''hello'')
     [''product'', ''bestseller'', ''category'', ''inventory'', ''items'']"
  "\<not> any_word_in (lower ''hello'')
     [''customer'', ''order'', ''high value'', ''vip'', ''spending'']"
  by code_simp+

lemma words_default_prompt:
  "any_word_in (lower ''Show me a business performance summary'')
     [''revenue'', ''sales'', ''performance'', ''trends'', ''summary'', ''business'']"
  "\<not> any_word_in (lower ''Show me a business performance summary'')
     [''product'', ''bestseller'', ''category'', ''inventory'', ''items'']"
  "\<not> any_word_in (lower ''Show me a business performance summary'')
     [''customer'', ''order'', ''high value'', ''vip'', ''spending'']"
  by code_simp+

lemma analyze_revenue_trends:
  "analyze_business_request ext (PStr ''Show me revenue trends'') tr =
     (case ext tr (RevenueQuery PNone) of
        Inl e \<Rightarrow> (Inl e, tr @ [RevenueQuery PNone])
      | Inr d \<Rightarrow>
          (Inr \<lparr>r_request = PStr ''Show me revenue trends'',
                r_queries_executed = [''revenue_summary''],
                r_data = [(''revenue'', d)]\<rparr>, tr @ [RevenueQuery PNone]))"
  by (simp add: analyze_business_request_def Let_def words_revenue_trends prog_simps bind_assoc
      execute_revenue_query_def bind_external)
    (simp add: ret_def bind_external split: sum.splits)

lemma analyze_bestseller:
  "analyze_business_request ext (PStr ''top bestseller products'') tr =
     (case ext tr (ProductQuery PNone PNone) of
        Inl e \<Rightarrow> (Inl e, tr @ [ProductQuery PNone PNone])
      | Inr d \<Rightarrow>
          (Inr \<lparr>r_request = PStr ''top bestseller products'',
                r_queries_executed = [''product_sales''],
                r_data = [(''products'', d)]\<rparr>, tr @ [ProductQuery PNone PNone]))"
  by (simp add: analyze_business_request_def Let_def words_bestseller prog_simps bind_assoc
      execute_product_query_def bind_external)
    (simp add: ret_def bind_external split: sum.splits)

lemma analyze_customer_orders:
  "analyze_business_request ext (PStr ''customer orders over $500'') tr =
     (case ext tr (CustomerQuery PNone (PInt 500)) of
        Inl e \<Rightarrow> (Inl e, tr @ [CustomerQuery PNone (PInt 500)])
      | Inr d \<Rightarrow>
          (Inr \<lparr>r_request = PStr ''customer orders over $500'',
                r_queries_executed = [''customer_orders''],
                r_data = [(''customers'', d)]\<rparr>, tr @ [CustomerQuery PNone (PInt 500)]))"
  by (simp add: analyze_business_request_def Let_def words_customer_orders prog_simps bind_assoc
      execute_customer_query_def bind_external)
    (simp add: ret_def bind_external split: sum.splits)

lemma analyze_hello:
  "analyze_business_request ext (PStr ''hello'') tr =
     (case ext tr (RevenueQuery PNone) of
        Inl e \<Rightarrow> (Inl e, tr @ [RevenueQuery PNone])
      | Inr d1 \<Rightarrow>
          (case ext (tr @ [RevenueQuery PNone]) (ProductQuery PNone PNone) of
             Inl e \<Rightarrow> (Inl e, tr @ [RevenueQuery PNone, ProductQuery PNone PNone])
           | Inr d2 \<Rightarrow>
               (Inr \<lparr>r_request = PStr ''hello'',
                     r_queries_executed = [''revenue_summary'', ''product_sales''],
                     r_data = [(''revenue'', d1), (''products'', d2)]\<rparr>,
                tr @ [RevenueQuery PNone, ProductQuery PNone PNone])))"
  by (simp add: analyze_business_request_def Let_def words_hello prog_simps bind_assoc
      execute_revenue_query_def execute_product_query_def bind_external)
    (simp add: ret_def bind_external split: sum.splits)

lemma analyze_default_prompt:
  "analyze_business_request ext (PStr ''Show me a business performance summary'') tr =
     (case ext tr (RevenueQuery PNone) of
        Inl e \<Rightarrow> (Inl e, tr @ [RevenueQuery PNone])
      | Inr d \<Rightarrow>
          (Inr \<lparr>r_request = PStr ''Show me a business performance summary'',
                r_queries_executed = [''revenue_summary''],
                r_data = [(''revenue'', d)]\<rparr>, tr @ [RevenueQuery PNone]))"
  by (simp add: analyze_business_request_def Let_def words_default_prompt prog_simps bind_assoc
      execute_revenue_query_def bind_external)
    (simp add: ret_def bind_external split: sum.splits)

text \<open>
  C5. The four reference prompts: whenever the analysis returns, the queries executed and
  the provider calls made are those of revenue alone, of product alone, of customer alone
  with \<open>min_amount\<close> 500, and of the fallback revenue and product with no customer call.
\<close>

theorem classifier_examples:
  "(\<forall>res tr'. analyze_business_request ext (PStr ''Show me revenue trends'') tr = (Inr res, tr') \<longrightarrow>
       r_queries_executed res = [''revenue_summary''] \<and> map fst (r_data res) = [''revenue'']
       \<and> tr' = tr @ [RevenueQuery PNone])
   \<and> (\<forall>res tr'. analyze_business_request ext (PStr ''top bestseller products'') tr = (Inr res, tr') \<longrightarrow>
       r_queries_executed res = [''product_sales''] \<and> map fst (r_data res) = [''products'']
       \<and> tr' = tr @ [ProductQuery PNone PNone])
   \<and> (\<forall>res tr'. analyze_business_request ext (PStr ''customer orders over $500'') tr = (Inr res, tr') \<longrightarrow>
       r_queries_executed res = [''customer_orders''] \<and> map fst (r_data res) = [''customers'']
       \<and> tr' = tr @ [CustomerQuery PNone (PInt 500)])
   \<and> (\<forall>res tr'. analyze_business_request ext (PStr ''hello'') tr = (Inr res, tr') \<longrightarrow>
       r_queries_executed res = [''revenue_summary'', ''product_sales'']
       \<and> map fst (r_data res) = [''revenue'', ''products'']
       \<and> tr' = tr @ [RevenueQuery PNone, ProductQuery PNone PNone])"
  by (auto simp: analyze_revenue_trends analyze_bestseller analyze_customer_orders analyze_hello
      split: sum.splits)


theorem classifier_examples_witness:
  "(\<exists>res. analyze_business_request sample_world (PStr ''Show me revenue trends'') [] =
            (Inr res, [RevenueQuery PNone])
          \<and> r_queries_executed res = [''revenue_summary''])
   \<and> (\<exists>res. analyze_business_request sample_world (PStr ''top bestseller products'') [] =
            (Inr res, [ProductQuery PNone PNone])
          \<and> r_queries_executed res = [''product_sales''])
   \<and> (\<exists>res. analyze_business_request sample_world (PStr ''customer orders over $500'') [] =
            (Inr res, [CustomerQuery PNone (PInt 500)])
          \<and> r_queries_executed res = [''customer_orders''])
   \<and> (\<exists>res. analyze_business_request sample_world (PStr ''hello'') [] =
            (Inr res, [RevenueQuery PNone, ProductQuery PNone PNone])
          \<and> r_queries_executed res = [''revenue_summary'', ''product_sales''])"
proof -
  obtain r1 t1 where 1:
    "analyze_business_request sample_world (PStr ''Show me revenue trends'') [] = (Inr r1, t1)"
    by (simp add: analyze_revenue_trends)
  obtain r2 t2 where 2:
    "analyze_business_request sample_world (PStr ''top bestseller products'') [] = (Inr r2, t2)"
    by (simp add: analyze_bestseller)
  obtain r3 t3 where 3:
    "analyze_business_request sample_world (PStr ''customer orders over $500'') [] = (Inr r3, t3)"
    by (simp add: analyze_customer_orders)
  obtain r4 t4 where 4:
    "analyze_business_request sample_world (PStr ''hello'') [] = (Inr r4, t4)"
    by (simp add: analyze_hello)
  from classifier_examples [of sample_world "[]"] 1 2 3 4 show ?thesis
    by simp
qed

section \<open>The default prompt\<close>

text \<open>
  C10. A call of \<open>query_business_data\<close> whose arguments have no \<open>query\<close> runs the analysis
  on \<open>Show me a business performance summary\<close>, and on that prompt the analysis calls
  the revenue query and nothing else: its result lists \<open>revenue_summary\<close> only.
\<close>

theorem default_prompt_revenue_only:
  assumes "map_of ps ''name'' = Some (PStr ''query_business_data'')"
    and "py_get (PDict ps) ''arguments'' (PDict []) = Inr (PDict args)"
    and "map_of args ''query'' = None"
  shows "handle_tools_call ext (PDict ps) =
           try_except
             (bind (analyze_business_request ext (PStr ''Show me a business performance summary''))
                (\<lambda>query_results.
              bind (generate_business_insights ext query_results
                      (PStr ''Show me a business performance summary'')) (\<lambda>insights.
                ret (PDict [(''content'', text_content insights)]))))
             (\<lambda>e. ret (PDict [(''content'',
                                text_content (''Error executing query_business_data: '' @ str_exn e)),
                               (''isError'', PBool True)]))
         \<and> analyze_business_request ext (PStr ''Show me a business performance summary'') tr =
             (case ext tr (RevenueQuery PNone) of
                Inl e \<Rightarrow> (Inl e, tr @ [RevenueQuery PNone])
              | Inr d \<Rightarrow>
                  (Inr \<lparr>r_request = PStr ''Show me a business performance summary'',
                        r_queries_executed = [''revenue_summary''],
                        r_data = [(''revenue'', d)]\<rparr>, tr @ [RevenueQuery PNone]))"
  using assms by (simp add: handle_tools_call_def prog_simps analyze_default_prompt)

theorem default_prompt_revenue_only_witness:
  "handle_tools_call sample_world (PDict [(''name'', PStr ''query_business_data'')]) [] =
     (Inr (PDict [(''content'', text_content ''Revenue is steady.'')]),
      [RevenueQuery PNone,
       Analyst (results_dict
                  \<lparr>r_request = PStr ''Show me a business performance summary'',
                   r_queries_executed = [''revenue_summary''],
                   r_data = [(''revenue'', sample_revenue)]\<rparr>)
         (PStr ''Show me a business performance summary'')])"
  using default_prompt_revenue_only
    [of "[(''name'', PStr ''query_business_data'')]" "[]" sample_world "[]"]
  by (simp add: try_except_def bind_def generate_business_insights_def external_def ret_def)

section \<open>The weather forecast\<close>

text \<open>
  C8, as the code has it. For \<open>get_weather_forecast\<close> with a location, the weather agent is
  called once with the event \<open>{"prompt": "Get weather forecast for <location>"}\<close> and the
  context \<open>None\<close>, and what it returns is returned unchanged as the value of the key
  \<open>response\<close> of the result.
\<close>

theorem weather_forecast_forwarded:
  assumes "map_of ps ''name'' = Some (PStr ''get_weather_forecast'')"
    and "map_of ps ''arguments'' = Some (PDict args)"
    and "map_of args ''location'' = Some location"
    and "ext tr (WeatherAgent
            (PDict [(''prompt'', PStr (''Get weather forecast for '' @ py_str location))]) PNone) =
          Inr response"
  shows "weather_handle_request ext (PDict ps) tr =
           (Inr (PDict [(''response'', response)]),
            tr @ [WeatherAgent
                    (PDict [(''prompt'', PStr (''Get weather forecast for '' @ py_str location))])
                    PNone])"
  using assms
  by (simp add: weather_handle_request_def weather_handle_weather_request_def prog_simps
      bind_external)
    (simp add: ret_def)

theorem weather_forecast_forwarded_witness:
  "weather_handle_request sample_world
     (PDict [(''name'', PStr ''get_weather_forecast''),
             (''arguments'', PDict [(''location'', PStr ''Paris'')])]) [] =
     (Inr (PDict [(''response'', PStr ''Sunny, 21 degrees'')]),
      [WeatherAgent (PDict [(''prompt'', PStr ''Get weather forecast for Paris'')]) PNone])"
  using weather_forecast_forwarded
    [of "[(''name'', PStr ''get_weather_forecast''),
          (''arguments'', PDict [(''location'', PStr ''Paris'')])]"
        "[(''location'', PStr ''Paris'')]" "PStr ''Paris''" sample_world "[]"
        "PStr ''Sunny, 21 degrees''"]
  by simp

text \<open>
  C8 as stated fails: the result is a mapping with the one key \<open>response\<close>, neither a
  text block nor a result whose \<open>content\<close> is a list of text blocks.
\<close>

theorem weather_result_not_content_block_counterexample:
  "weather_handle_request sample_world
     (PDict [(''name'', PStr ''get_weather_forecast''),
             (''arguments'', PDict [(''location'', PStr ''Paris'')])]) [] =
     (Inr (PDict [(''response'', PStr ''Sunny, 21 degrees'')]),
      [WeatherAgent (PDict [(''prompt'', PStr ''Get weather forecast for Paris'')]) PNone])
   \<and> PDict [(''response'', PStr ''Sunny, 21 degrees'')]
       \<noteq> PDict [(''type'', PStr ''text''), (''text'', PStr ''Sunny, 21 degrees'')]
   \<and> PDict [(''response'', PStr ''Sunny, 21 degrees'')]
       \<noteq> PDict [(''content'', text_content ''Sunny, 21 degrees'')]"
  by (simp add: weather_handle_request_def weather_handle_weather_request_def prog_simps
      bind_external)
    (simp add: ret_def)

section \<open>Failures inside the narrated business tool\<close>

text \<open>What a call of \<open>query_business_data\<close> runs, and what a \<open>tools/call\<close> request runs.\<close>

lemma query_business_data_call:
  assumes "map_of ps ''name'' = Some (PStr ''query_business_data'')"
    and "py_get (PDict ps) ''arguments'' (PDict []) = Inr arguments"
    and "py_get arguments ''query'' (PStr ''Show me a business performance summary'') = Inr query"
  shows "handle_tools_call ext (PDict ps) =
           try_except
             (bind (analyze_business_request ext query) (\<lambda>query_results.
              bind (generate_business_insights ext query_results query) (\<lambda>insights.
                ret (PDict [(''content'', text_content insights)]))))
             (\<lambda>e. ret (PDict [(''content'',
                                text_content (''Error executing query_business_data: '' @ str_exn e)),
                               (''isError'', PBool True)]))"
  using assms by (simp add: handle_tools_call_def prog_simps)

lemma tools_call_request:
  assumes "map_of req ''method'' = Some (PStr ''tools/call'')"
    and "py_get (PDict req) ''params'' (PDict []) = Inr params"
    and "py_get (PDict req) ''id'' PNone = Inr rid"
  shows "process_request ext (PDict req) =
           try_except
             (bind (handle_tools_call ext params) (\<lambda>result. ret (success_response result rid)))
             (\<lambda>e. ret (error_response e rid))"
  using assms by (simp add: process_request_def prog_simps)

text \<open>
  An aggregation stops at the first provider call that raises: when the calls of the
  categories before a category are answered and the call of that category raises, the
  aggregation ends with that exception, and no later call is made.
\<close>

lemma spec_aggregate_stops:
  assumes "calls_succeed ext tr (map (spec_provider_call m) pre)"
    and "ext (tr @ map (spec_provider_call m) pre) (spec_provider_call m c) = Inl e"
  shows "spec_aggregate ext m (pre @ c # post) res tr =
           (Inl e, tr @ map (spec_provider_call m) pre @ [spec_provider_call m c])"
  using assms
proof (induction pre arbitrary: res tr)
  case Nil
  then show ?case by (simp add: bind_external)
next
  case (Cons p pre)
  from Cons.prems(1) obtain d where d: "ext tr (spec_provider_call m p) = Inr d"
    and rest: "calls_succeed ext (tr @ [spec_provider_call m p]) (map (spec_provider_call m) pre)"
    by (auto split: sum.splits)
  from Cons.prems(2)
  have "ext ((tr @ [spec_provider_call m p]) @ map (spec_provider_call m) pre)
          (spec_provider_call m c) = Inl e"
    by simp
  from Cons.IH [OF rest this] d show ?case
    by (simp add: bind_external)
qed

text \<open>
  Conversely, on a string prompt the analysis raises only what a provider call raised:
  the exception is that of the last call made, and every call made is one of the three
  provider queries.
\<close>

lemma analysis_raises_by_provider_failure:
  assumes "analyze_business_request ext (PStr s) tr = (Inl e, tr')"
  shows "\<exists>calls. tr' = tr @ calls \<and> calls \<noteq> []
           \<and> ext (tr @ butlast calls) (last calls) = Inl e
           \<and> set calls \<subseteq> {RevenueQuery PNone, ProductQuery PNone PNone}
                           \<union> range (CustomerQuery PNone)"
proof -
  from assms have "spec_aggregate ext (spec_min_amount s) (spec_classify s)
       \<lparr>r_request = PStr s, r_queries_executed = [], r_data = []\<rparr> tr = (Inl e, tr')"
    by (simp add: analyze_refines_spec)
  from spec_aggregate_failure [OF this] obtain pre c where
    tr': "tr' = tr @ map (spec_provider_call (spec_min_amount s)) pre
                  @ [spec_provider_call (spec_min_amount s) c]"
    and failed: "ext (tr @ map (spec_provider_call (spec_min_amount s)) pre)
                   (spec_provider_call (spec_min_amount s) c) = Inl e"
    by blast
  have query: "spec_provider_call m x \<in> {RevenueQuery PNone, ProductQuery PNone PNone}
                             \<union> range (CustomerQuery PNone)" for m x
    by (cases x) simp_all
  show ?thesis
  proof (intro exI conjI)
    show "tr' = tr @ (map (spec_provider_call (spec_min_amount s)) pre
                  @ [spec_provider_call (spec_min_amount s) c])"
      using tr' by simp
    show "map (spec_provider_call (spec_min_amount s)) pre
            @ [spec_provider_call (spec_min_amount s) c] \<noteq> []"
      by simp
    show "ext (tr @ butlast (map (spec_provider_call (spec_min_amount s)) pre
                  @ [spec_provider_call (spec_min_amount s) c]))
            (last (map (spec_provider_call (spec_min_amount s)) pre
                  @ [spec_provider_call (spec_min_amount s) c])) = Inl e"
      using failed by simp
    show "set (map (spec_provider_call (spec_min_amount s)) pre
            @ [spec_provider_call (spec_min_amount s) c])
          \<subseteq> {RevenueQuery PNone, ProductQuery PNone PNone} \<union> range (CustomerQuery PNone)"
      using query by auto
  qed
qed

text \<open>
  C2. A \<open>query_business_data\<close> call on a text whose classified categories are \<open>pre\<close>,
  then \<open>c\<close>, then \<open>post\<close>: when the provider calls of \<open>pre\<close> are answered and the provider
  call of \<open>c\<close> raises, whichever category \<open>c\<close> is and however many were answered before
  it, the response is the success envelope around a result with \<open>isError\<close> true and the
  single text \<open>Error executing query_business_data: <failure>\<close>. It is made of the raised
  exception and the request id alone, so nothing the answered queries returned is in it;
  the failing call is the last call made: the categories of \<open>post\<close> are not queried and the
  analyst is not called.
\<close>

theorem provider_failure_single_error_block:
  assumes "map_of req ''method'' = Some (PStr ''tools/call'')"
    and "py_get (PDict req) ''params'' (PDict []) = Inr (PDict ps)"
    and "py_get (PDict req) ''id'' PNone = Inr rid"
    and "map_of ps ''name'' = Some (PStr ''query_business_data'')"
    and "py_get (PDict ps) ''arguments'' (PDict []) = Inr arguments"
    and "py_get arguments ''query'' (PStr ''Show me a business performance summary'') = Inr (PStr s)"
    and "spec_classify s = pre @ c # post"
    and "calls_succeed ext tr (map (spec_provider_call (spec_min_amount s)) pre)"
    and "ext (tr @ map (spec_provider_call (spec_min_amount s)) pre)
           (spec_provider_call (spec_min_amount s) c) = Inl e"
  shows "process_request ext (PDict req) tr =
           (Inr (success_response
              (PDict [(''content'',
                       text_content (''Error executing query_business_data: '' @ str_exn e)),
                      (''isError'', PBool True)]) rid),
            tr @ map (spec_provider_call (spec_min_amount s)) pre
               @ [spec_provider_call (spec_min_amount s) c])"
proof -
  have "analyze_business_request ext (PStr s) tr =
          (Inl e, tr @ map (spec_provider_call (spec_min_amount s)) pre
                     @ [spec_provider_call (spec_min_amount s) c])"
    by (simp only: analyze_refines_spec assms(7) spec_aggregate_stops [OF assms(8,9)])
  then show ?thesis
    by (simp add: tools_call_request [OF assms(1-3)] query_business_data_call [OF assms(4-6)]
        try_except_def bind_def ret_def)
qed

lemma words_revenue_product:
  "any_word_in (lower ''Revenue and product trends'')
     [''revenue'', ''sales'', ''performance'', ''trends'', ''summary'', ''business'']"
  "any_word_in (lower ''Revenue and product trends'')
     [''product'', ''bestseller'', ''category'', ''inventory'', ''items'']"
  "\<not> any_word_in (lower ''Revenue and product trends'')
     [''customer'', ''order'', ''high value'', ''vip'', ''spending'']"
  by code_simp+

lemma classify_revenue_product:
  "spec_classify ''Revenue and product trends'' = [Revenue] @ Product # []"
  "spec_min_amount ''Revenue and product trends'' = PNone"
  by (simp_all add: spec_classify_def spec_rule_table_def spec_min_amount_def Let_def
      spec_selected_code words_revenue_product)

lemma classify_all_three:
  "spec_classify ''Sales of products to VIP customers'' = [Revenue, Product] @ Customer # []"
  "spec_min_amount ''Sales of products to VIP customers'' = PNone"
  by (simp_all add: spec_classify_def spec_rule_table_def spec_min_amount_def Let_def
      spec_selected_code words_all_three str_in_sublist [symmetric])

theorem provider_failure_single_error_block_witness:
  "process_request broken_store
     (PDict [(''jsonrpc'', PStr ''2.0''), (''method'', PStr ''tools/call''),
             (''params'', PDict [(''name'', PStr ''query_business_data''),
                                (''arguments'', PDict [(''query'', PStr ''Revenue and product trends'')])]),
             (''id'', PInt 0)]) [] =
     (Inr (PDict [(''jsonrpc'', PStr ''2.0''),
                  (''result'', PDict
                     [(''content'', PList [PDict
                         [(''type'', PStr ''text''),
                          (''text'', PStr ''Error executing query_business_data: Database connection failed: timeout expired'')]]),
                      (''isError'', PBool True)]),
                  (''id'', PInt 0)]),
      [RevenueQuery PNone, ProductQuery PNone PNone])
   \<and> process_request broken_customers
     (PDict [(''jsonrpc'', PStr ''2.0''), (''method'', PStr ''tools/call''),
             (''params'', PDict [(''name'', PStr ''query_business_data''),
                                (''arguments'', PDict [(''query'', PStr ''Sales of products to VIP customers'')])]),
             (''id'', PNone)]) [] =
     (Inr (PDict [(''jsonrpc'', PStr ''2.0''),
                  (''result'', PDict
                     [(''content'', PList [PDict
                         [(''type'', PStr ''text''),
                          (''text'', PStr ''Error executing query_business_data: Database connection failed: relation does not exist'')]]),
                      (''isError'', PBool True)]),
                  (''id'', PNone)]),
      [RevenueQuery PNone, ProductQuery PNone PNone, CustomerQuery PNone PNone])"
  using provider_failure_single_error_block
    [of "[(''jsonrpc'', PStr ''2.0''), (''method'', PStr ''tools/call''),
             (''params'', PDict [(''name'', PStr ''query_business_data''),
                                (''arguments'', PDict [(''query'', PStr ''Revenue and product trends'')])]),
             (''id'', PInt 0)]"
        "[(''name'', PStr ''query_business_data''),
          (''arguments'', PDict [(''query'', PStr ''Revenue and product trends'')])]"
        "PInt 0" "PDict [(''query'', PStr ''Revenue and product trends'')]"
        "''Revenue and product trends''" "[Revenue]" Product "[]" broken_store "[]"
        "Exception ''Database connection failed: timeout expired''",
     OF _ _ _ _ _ _ classify_revenue_product(1)]
    provider_failure_single_error_block
    [of "[(''jsonrpc'', PStr ''2.0''), (''method'', PStr ''tools/call''),
             (''params'', PDict [(''name'', PStr ''query_business_data''),
                                (''arguments'', PDict [(''query'', PStr ''Sales of products to VIP customers'')])]),
             (''id'', PNone)]"
        "[(''name'', PStr ''query_business_data''),
          (''arguments'', PDict [(''query'', PStr ''Sales of products to VIP customers'')])]"
        PNone "PDict [(''query'', PStr ''Sales of products to VIP customers'')]"
        "''Sales of products to VIP customers''" "[Revenue, Product]" Customer "[]"
        broken_customers "[]"
        "Exception ''Database connection failed: relation does not exist''",
     OF _ _ _ _ _ _ classify_all_three(1)]
  by (simp add: classify_revenue_product(2) classify_all_three(2)
      sample_revenue_def sample_products_def success_response_def text_content_def)

text \<open>The Lambda entry point on an event that holds, or is, an MCP request.\<close>

lemma handler_mcp:
  assumes "py_get event ''body'' PNone = Inr b"
    and "(case b of PStr raw \<Rightarrow> json_loads raw | _ \<Rightarrow> Inr event) = Inr (PDict req)"
    and "''jsonrpc'' \<in> set (map fst req)"
  shows "handler json_loads ext event =
           try_except
             (bind (process_request ext (PDict req)) (\<lambda>response_body.
                ret (PDict [(''statusCode'', PInt 200),
                            (''headers'', http_headers),
                            (''body'', PStr (json_dumps None response_body))])))
             (\<lambda>e.
                ret (PDict [(''statusCode'', PInt 200),
                            (''headers'', http_headers),
                            (''body'', PStr (json_dumps None (PDict
                               [(''jsonrpc'', PStr ''2.0''),
                                (''error'', PDict [(''code'', PInt (- 32603)),
                                                  (''message'', PStr (''Internal error: '' @ str_exn e))]),
                                (''id'', PNone)])))]))"
proof -
  have "(case b of PStr raw \<Rightarrow> lift (json_loads raw) | _ \<Rightarrow> ret event) = lift (Inr (PDict req))"
    using assms(2) by (cases b) (simp_all add: fun_eq_iff ret_def lift_def)
  then show ?thesis
    using assms(1,3) by (simp add: handler_def prog_simps)
qed

text \<open>
  C3. When the analysis of a \<open>query_business_data\<close> call returns its results and the
  analyst then raises, the call does not fail: the response is the success envelope around
  a result with one text block and no \<open>isError\<close>, whose text is the notice
  \<open>Data retrieved successfully, but analysis failed: <failure>\<close>, an empty line,
  \<open>Raw data: \<close> and the results serialised by \<open>json.dumps\<close> with indent 2; and the Lambda
  entry point returns it as the body of a response with status code 200.
\<close>

theorem narrative_failure_degrades:
  assumes "map_of req ''method'' = Some (PStr ''tools/call'')"
    and "py_get (PDict req) ''params'' (PDict []) = Inr (PDict ps)"
    and "py_get (PDict req) ''id'' PNone = Inr rid"
    and "map_of ps ''name'' = Some (PStr ''query_business_data'')"
    and "py_get (PDict ps) ''arguments'' (PDict []) = Inr arguments"
    and "py_get arguments ''query'' (PStr ''Show me a business performance summary'') = Inr query"
    and "analyze_business_request ext query tr = (Inr results, tr1)"
    and "ext tr1 (Analyst (results_dict results) query) = Inl e"
    and "py_get event ''body'' PNone = Inr b"
    and "(case b of PStr raw \<Rightarrow> json_loads raw | _ \<Rightarrow> Inr event) = Inr (PDict req)"
    and "''jsonrpc'' \<in> set (map fst req)"
  shows "process_request ext (PDict req) tr =
           (Inr (success_response
              (PDict [(''content'',
                       text_content (''Data retrieved successfully, but analysis failed: ''
                         @ str_exn e @ [newline, newline] @ ''Raw data: ''
                         @ json_dumps (Some 2) (results_dict results)))]) rid),
            tr1 @ [Analyst (results_dict results) query])
       \<and> handler json_loads ext event tr =
           (Inr (PDict [(''statusCode'', PInt 200),
                        (''headers'', http_headers),
                        (''body'', PStr (json_dumps None (success_response
                           (PDict [(''content'',
                              text_content (''Data retrieved successfully, but analysis failed: ''
                                @ str_exn e @ [newline, newline] @ ''Raw data: ''
                                @ json_dumps (Some 2) (results_dict results)))]) rid)))]),
            tr1 @ [Analyst (results_dict results) query])"
proof -
  have insights: "generate_business_insights ext results query tr1 =
      (Inr (''Data retrieved successfully, but analysis failed: ''
              @ str_exn e @ [newline, newline] @ ''Raw data: ''
              @ json_dumps (Some 2) (results_dict results)),
       tr1 @ [Analyst (results_dict results) query])"
    using assms(8)
    by (simp add: generate_business_insights_def try_except_def bind_external ret_def)
  have call: "process_request ext (PDict req) tr =
           (Inr (success_response
              (PDict [(''content'',
                       text_content (''Data retrieved successfully, but analysis failed: ''
                         @ str_exn e @ [newline, newline] @ ''Raw data: ''
                         @ json_dumps (Some 2) (results_dict results)))]) rid),
            tr1 @ [Analyst (results_dict results) query])"
    using assms(7) insights
    by (simp add: tools_call_request [OF assms(1-3)] query_business_data_call [OF assms(4-6)]
        try_except_def bind_def ret_def)
  then show ?thesis
    by (simp add: handler_mcp [OF assms(9-11)] try_except_def bind_def ret_def)
qed

theorem narrative_failure_degrades_witness:
  "handler (\<lambda>raw. Inl (ValueError ''Expecting value''))  no_api_key
     (PDict [(''jsonrpc'', PStr ''2.0''), (''method'', PStr ''tools/call''),
             (''params'', PDict [(''name'', PStr ''query_business_data''),
                                (''arguments'', PDict [(''query'', PStr ''Show me revenue trends'')])]),
             (''id'', PStr ''abc'')]) [] =
     (Inr (PDict [(''statusCode'', PInt 200),
                  (''headers'', http_headers),
                  (''body'', PStr (json_dumps None (PDict
                     [(''jsonrpc'', PStr ''2.0''),
                      (''result'', PDict [(''content'', PList [PDict
                         [(''type'', PStr ''text''),
                          (''text'', PStr (''Data retrieved successfully, but analysis failed: ''
                             @ ''OpenAI API key not found. Set OPENAI_API_KEY or OPENAI_KEY environment variable.''
                             @ [newline, newline] @ ''Raw data: ''
                             @ json_dumps (Some 2) (PDict
                                 [(''request'', PStr ''Show me revenue trends''),
                                  (''queries_executed'', PList [PStr ''revenue_summary'']),
                                  (''data'', PDict [(''revenue'', sample_revenue)])])))]])]),
                      (''id'', PStr ''abc'')])))]),
      [RevenueQuery PNone,
       Analyst (PDict [(''request'', PStr ''Show me revenue trends''),
                       (''queries_executed'', PList [PStr ''revenue_summary'']),
                       (''data'', PDict [(''revenue'', sample_revenue)])])
         (PStr ''Show me revenue trends'')])"
proof -
  have run: "analyze_business_request no_api_key (PStr ''Show me revenue trends'') [] =
      (Inr \<lparr>r_request = PStr ''Show me revenue trends'',
            r_queries_executed = [''revenue_summary''],
            r_data = [(''revenue'', sample_revenue)]\<rparr>, [RevenueQuery PNone])"
    by (simp add: analyze_revenue_trends)
  from narrative_failure_degrades
    [of "[(''jsonrpc'', PStr ''2.0''), (''method'', PStr ''tools/call''),
             (''params'', PDict [(''name'', PStr ''query_business_data''),
                                (''arguments'', PDict [(''query'', PStr ''Show me revenue trends'')])]),
             (''id'', PStr ''abc'')]"
        "[(''name'', PStr ''query_business_data''),
          (''arguments'', PDict [(''query'', PStr ''Show me revenue trends'')])]"
        "PStr ''abc''" "PDict [(''query'', PStr ''Show me revenue trends'')]"
        "PStr ''Show me revenue trends''" no_api_key "[]"
        "\<lparr>r_request = PStr ''Show me revenue trends'',
            r_queries_executed = [''revenue_summary''],
            r_data = [(''revenue'', sample_revenue)]\<rparr>"
        "[RevenueQuery PNone]"
        "Exception ''OpenAI API key not found. Set OPENAI_API_KEY or OPENAI_KEY environment variable.''"
        "PDict [(''jsonrpc'', PStr ''2.0''), (''method'', PStr ''tools/call''),
             (''params'', PDict [(''name'', PStr ''query_business_data''),
                                (''arguments'', PDict [(''query'', PStr ''Show me revenue trends'')])]),
             (''id'', PStr ''abc'')]"
        PNone "\<lambda>raw. Inl (ValueError ''Expecting value'')"] run
  show ?thesis by (simp add: success_response_def text_content_def results_dict_def)
qed

text \<open>The serialiser on a small value, with and without indentation.\<close>

lemma json_dumps_example:
  "json_dumps (Some 2) (PDict [(''a'', PList [PInt 1, PStr ''x'']), (''b'', PDict []), (''c'', PNone)]) =
     ''{'' @ [newline] @ ''  '' @ [dquote] @ ''a'' @ [dquote] @ '': ['' @ [newline]
       @ ''    1,'' @ [newline] @ ''    '' @ [dquote] @ ''x'' @ [dquote] @ [newline]
       @ ''  ],'' @ [newline] @ ''  '' @ [dquote] @ ''b'' @ [dquote] @ '': {},'' @ [newline]
       @ ''  '' @ [dquote] @ ''c'' @ [dquote] @ '': null'' @ [newline] @ ''}''"
  "json_dumps None (PDict [(''a'', PList [PInt 1, PStr ''x'']), (''b'', PDict []), (''c'', PNone)]) =
     ''{'' @ [dquote] @ ''a'' @ [dquote] @ '': [1, '' @ [dquote] @ ''x'' @ [dquote] @ ''], ''
       @ [dquote] @ ''b'' @ [dquote] @ '': {}, '' @ [dquote] @ ''c'' @ [dquote] @ '': null}''"
  by code_simp+

end
